theory Spec2Isabelle
  imports Main "HOL-Library.Char_ord" "HOL-Library.AList"
begin

section \<open>The MOS driver (napalm\_mos/mos.py) as HOL functions\<close>

text \<open>
  The driver turns the output of device commands into fixed records. Text is Python 3
  \<open>str\<close>; a character here is a \<open>char\<close>, so the model covers the code points 0 to 255.
  Integers are unbounded. An exception is a value of type \<open>error\<close>, and a function that
  can raise returns \<open>error + 'a\<close>.
\<close>

subsection \<open>Device output\<close>

text \<open>
  A Python dictionary keeps its keys in the order in which they were first set. It is an
  association list here, with distinct keys: \<open>map_of d k\<close> looks a key up, and
  \<open>AList.update k v d\<close> is \<open>d[k] = v\<close>, which replaces the value of a key in place and
  puts a new key last.

  A response of the device is a dictionary that holds the command's output under the key
  \<open>output\<close> (\<open>None\<close>: the key is absent). The output is text, or structured data of one
  of the shapes the driver reads: a dictionary of fields, a list of rows, or a dictionary
  with the key \<open>interfaces\<close> that maps each interface name to its fields.
\<close>

type_synonym ('k, 'v) dict = "('k \<times> 'v) list"

datatype val = VStr string | VInt int

datatype "output" =
    Text string
  | Fields "(string, val) dict"
  | Table "(string, string) dict list"
  | Interfaces "(string, (string, val) dict) dict"

datatype encoding = JsonEnc | TextEnc

type_synonym response = "output option"

subsection \<open>Exceptions and the module namespace\<close>

datatype error =
    NameError string
  | TypeError string
  | KeyError string
  | ValueError string
  | AttributeError string
  | IndexError string
  | OverflowError string
  | CommandError string
  | ConnectionError string
  | CommandErrorException "(string, output option) dict"

text \<open>
  The names the module binds at top level (lines 25 to 50): the imports, \<open>TRANSPORTS\<close> and
  the class. \<open>from pyeapi.client import Node as EapiNode\<close> binds \<open>EapiNode\<close> only, and
  \<open>import napalm_base.helpers\<close> binds \<open>napalm_base\<close>.
\<close>

definition module_globals :: "string list" where
  "module_globals =
     [''print_function'', ''unicode_literals'', ''re'', ''timedelta'', ''EapiNode'',
      ''HttpsEapiConnection'', ''HttpEapiConnection'', ''ConnectionError'', ''napalm_base'',
      ''NetworkDriver'', ''string_parsers'', ''py23_compat'', ''ConnectionException'',
      ''TRANSPORTS'', ''MOSDriver'']"

text \<open>
  Looking a global name up at run time: a name the module never bound (and that is no
  builtin) raises \<open>NameError\<close>.
\<close>

definition name_bound :: "string \<Rightarrow> bool" where
  "name_bound n = (n \<in> set module_globals)"

subsection \<open>Characters and the string methods the driver calls\<close>

definition is_digit :: "char \<Rightarrow> bool" where
  "is_digit c = (CHR ''0'' \<le> c \<and> c \<le> CHR ''9'')"

text \<open>\<open>str.isspace\<close> and the pattern class \<open>\s\<close> on the code points below 256.\<close>

definition is_space :: "char \<Rightarrow> bool" where
  "is_space c =
     ((CHR 0x09 \<le> c \<and> c \<le> CHR 0x0D) \<or> (CHR 0x1C \<le> c \<and> c \<le> CHR 0x20)
      \<or> c = CHR 0x85 \<or> c = CHR 0xA0)"

definition digit_val :: "char \<Rightarrow> int" where
  "digit_val c = of_char c - 48"

fun startswith :: "string \<Rightarrow> string \<Rightarrow> bool" where
  "startswith s [] = True"
| "startswith [] (p # ps) = False"
| "startswith (c # cs) (p # ps) = (c = p \<and> startswith cs ps)"

text \<open>\<open>sub in s\<close>\<close>

fun contains :: "string \<Rightarrow> string \<Rightarrow> bool" where
  "contains [] sub = (sub = [])"
| "contains (c # cs) sub = (startswith (c # cs) sub \<or> contains cs sub)"

definition strip :: "string \<Rightarrow> string" where
  "strip s = rev (dropWhile is_space (rev (dropWhile is_space s)))"

text \<open>
  \<open>s.split(sep)\<close> for a separator that is not empty: \<open>k\<close> counts the characters of a
  separator just found that are still to be passed over, \<open>cur\<close> is the piece read so far,
  reversed.
\<close>

fun split_from :: "string \<Rightarrow> nat \<Rightarrow> string \<Rightarrow> string \<Rightarrow> string list" where
  "split_from sep k cur [] = [rev cur]"
| "split_from sep (Suc k) cur (c # cs) = split_from sep k cur cs"
| "split_from sep 0 cur (c # cs) =
     (if startswith (c # cs) sep then rev cur # split_from sep (length sep - 1) [] cs
      else split_from sep 0 (c # cur) cs)"

definition split :: "string \<Rightarrow> string \<Rightarrow> string list" where
  "split s sep = split_from sep 0 [] s"

text \<open>\<open>s.split(sep, 1)\<close> for a one-character separator: one piece, or two.\<close>

definition split1 :: "string \<Rightarrow> char \<Rightarrow> string list" where
  "split1 s sep =
     (if sep \<in> set s then [takeWhile (\<lambda>c. c \<noteq> sep) s, tl (dropWhile (\<lambda>c. c \<noteq> sep) s)]
      else [s])"

text \<open>
  \<open>s.splitlines()\<close>: the line boundaries below code point 256 are LF, VT, FF, CR, CR LF,
  FS, GS, RS and NEL; a boundary at the very end opens no further line.
\<close>

definition is_linebreak :: "char \<Rightarrow> bool" where
  "is_linebreak c =
     ((CHR 0x0A \<le> c \<and> c \<le> CHR 0x0D) \<or> (CHR 0x1C \<le> c \<and> c \<le> CHR 0x1E) \<or> c = CHR 0x85)"

fun splitlines_from :: "string \<Rightarrow> string \<Rightarrow> string list" where
  "splitlines_from cur [] = (if cur = [] then [] else [rev cur])"
| "splitlines_from cur [c] =
     (if is_linebreak c then [rev cur] else [rev (c # cur)])"
| "splitlines_from cur (c # d # ds) =
     (if c = CHR 0x0D \<and> d = CHR 0x0A then rev cur # splitlines_from [] ds
      else if is_linebreak c then rev cur # splitlines_from [] (d # ds)
      else splitlines_from (c # cur) (d # ds))"

definition splitlines :: "string \<Rightarrow> string list" where
  "splitlines s = splitlines_from [] s"

text \<open>\<open>s.replace(old, new)\<close> for a one-character \<open>old\<close>.\<close>

definition replace :: "string \<Rightarrow> char \<Rightarrow> string \<Rightarrow> string" where
  "replace s old new = concat (map (\<lambda>c. if c = old then new else [c]) s)"

text \<open>
  The whitespace that \<open>int(s)\<close> and \<open>float(s)\<close> drop around a number: the ASCII
  whitespace and, of the other code points below 256, NEL and the no-break space. The
  separators FS, GS, RS and US are whitespace for \<open>str.strip\<close> and not for a number.
\<close>

definition is_numeric_space :: "char \<Rightarrow> bool" where
  "is_numeric_space c =
     ((CHR 0x09 \<le> c \<and> c \<le> CHR 0x0D) \<or> c = CHR 0x20 \<or> c = CHR 0x85 \<or> c = CHR 0xA0)"

definition numeric_strip :: "string \<Rightarrow> string" where
  "numeric_strip s = rev (dropWhile is_numeric_space (rev (dropWhile is_numeric_space s)))"

text \<open>
  \<open>int(s)\<close> on text: surrounding whitespace is dropped, one sign is allowed, and the
  rest is decimal digits, with single underscores allowed between digits.
\<close>

fun int_body_ok :: "string \<Rightarrow> bool" where
  "int_body_ok [] = False"
| "int_body_ok [c] = is_digit c"
| "int_body_ok (c # d # ds) =
     (is_digit c \<and> (if d = CHR ''_'' then int_body_ok ds else int_body_ok (d # ds)))"

definition digits_val :: "string \<Rightarrow> int" where
  "digits_val ds = foldl (\<lambda>n c. 10 * n + digit_val c) 0 (filter is_digit ds)"

definition int_of_str :: "string \<Rightarrow> error + int" where
  "int_of_str s =
     (let t = numeric_strip s;
          neg = startswith t ''-'';
          body = (if startswith t ''-'' \<or> startswith t ''+'' then tl t else t)
      in if int_body_ok body
         then Inr (if neg then - digits_val body else digits_val body)
         else Inl (ValueError s))"

subsection \<open>Patterns: the backtracking matcher of the \<open>re\<close> module\<close>

datatype citem = Ch char | Range char char | Digit | Space

datatype regex =
    One citem
  | NotOne citem
  | Set "citem list"
  | NotSet "citem list"
  | Eps
  | Seq regex regex
  | Alt regex regex
  | Opt regex
  | Star regex
  | Plus regex
  | Rep nat nat regex
  | Grp nat regex
  | Bol
  | Eol

record flags =
  ignorecase :: bool
  multiline :: bool

definition no_flags :: flags where
  "no_flags = \<lparr>ignorecase = False, multiline = False\<rparr>"

fun item_has :: "citem \<Rightarrow> char \<Rightarrow> bool" where
  "item_has (Ch a) c = (c = a)"
| "item_has (Range a b) c = (a \<le> c \<and> c \<le> b)"
| "item_has Digit c = is_digit c"
| "item_has Space c = is_space c"

text \<open>
  With IGNORECASE a character also matches through its other case. Below code point 256
  the only characters whose other case is an ASCII character are the ASCII letters, and
  every item of the driver's patterns is ASCII.
\<close>

definition swapcase :: "char \<Rightarrow> char" where
  "swapcase c =
     (if CHR ''a'' \<le> c \<and> c \<le> CHR ''z'' then char_of (of_char c - (32::nat))
      else if CHR ''A'' \<le> c \<and> c \<le> CHR ''Z'' then char_of (of_char c + (32::nat))
      else c)"

definition item_match :: "flags \<Rightarrow> citem \<Rightarrow> char \<Rightarrow> bool" where
  "item_match f i c = (item_has i c \<or> (ignorecase f \<and> item_has i (swapcase c)))"

text \<open>
  A matcher state: the character before the current position (\<open>None\<close> at the start of
  the text), the text still to read, and the groups bound so far.
\<close>

type_synonym mstate = "char option \<times> string \<times> (nat \<rightharpoonup> string)"

definition one_char :: "(char \<Rightarrow> bool) \<Rightarrow> mstate \<Rightarrow> mstate list" where
  "one_char ok st =
     (case st of (p, s, g) \<Rightarrow>
        (case s of [] \<Rightarrow> [] | c # cs \<Rightarrow> if ok c then [(Some c, cs, g)] else []))"

text \<open>
  Greedy repetition. The results are in the order in which the backtracking matcher tries
  them: one more round first, stopping here last. A round must read at least one
  character, so \<open>n\<close> rounds are enough for a text of length \<open>n\<close>.
\<close>

fun star :: "nat \<Rightarrow> (mstate \<Rightarrow> mstate list) \<Rightarrow> mstate \<Rightarrow> mstate list" where
  "star 0 step st = [st]"
| "star (Suc n) step st =
     concat (map (star n step)
        (filter (\<lambda>st'. length (fst (snd st')) < length (fst (snd st))) (step st))) @ [st]"

text \<open>\<open>r{lo,hi}\<close>, greedy.\<close>

fun rep :: "nat \<Rightarrow> nat \<Rightarrow> (mstate \<Rightarrow> mstate list) \<Rightarrow> mstate \<Rightarrow> mstate list" where
  "rep lo 0 step st = (if lo = 0 then [st] else [])"
| "rep lo (Suc hi) step st =
     concat (map (rep (lo - 1) hi step) (step st)) @ (if lo = 0 then [st] else [])"

definition bind_group :: "nat \<Rightarrow> string \<Rightarrow> mstate \<Rightarrow> mstate" where
  "bind_group i s st =
     (case st of (p', s', g') \<Rightarrow> (p', s', g'(i \<mapsto> take (length s - length s') s)))"

text \<open>
  \<open>ms f r st\<close>: every way the pattern \<open>r\<close> can match from the state \<open>st\<close>, as the states
  after the match, in the matcher's order of preference.
\<close>

primrec ms :: "flags \<Rightarrow> regex \<Rightarrow> mstate \<Rightarrow> mstate list" where
  "ms f (One i) = one_char (item_match f i)"
| "ms f (NotOne i) = one_char (\<lambda>c. \<not> item_match f i c)"
| "ms f (Set is) = one_char (\<lambda>c. list_ex (\<lambda>i. item_match f i c) is)"
| "ms f (NotSet is) = one_char (\<lambda>c. \<not> list_ex (\<lambda>i. item_match f i c) is)"
| "ms f Eps = (\<lambda>st. [st])"
| "ms f (Seq r1 r2) = (\<lambda>st. concat (map (ms f r2) (ms f r1 st)))"
| "ms f (Alt r1 r2) = (\<lambda>st. ms f r1 st @ ms f r2 st)"
| "ms f (Opt r) = (\<lambda>st. ms f r st @ [st])"
| "ms f (Star r) = (\<lambda>st. star (length (fst (snd st))) (ms f r) st)"
| "ms f (Plus r) =
     (\<lambda>st. concat (map (\<lambda>st'. star (length (fst (snd st'))) (ms f r) st') (ms f r st)))"
| "ms f (Rep lo hi r) = rep lo hi (ms f r)"
| "ms f (Grp i r) = (\<lambda>st. map (bind_group i (fst (snd st))) (ms f r st))"
| "ms f Bol =
     (\<lambda>st. if fst st = None \<or> (multiline f \<and> fst st = Some (CHR 0x0A)) then [st] else [])"
| "ms f Eol =
     (\<lambda>st. if fst (snd st) = [] \<or> fst (snd st) = [CHR 0x0A]
               \<or> (multiline f \<and> startswith (fst (snd st)) [CHR 0x0A])
            then [st] else [])"

fun cat :: "regex list \<Rightarrow> regex" where
  "cat [] = Eps"
| "cat [r] = r"
| "cat (r # rs) = Seq r (cat rs)"

definition lit :: "string \<Rightarrow> regex" where
  "lit s = cat (map (\<lambda>c. One (Ch c)) s)"

text \<open>
  A match object: the text before the match, the matched text, the text after it, the
  character before the end of the match, and the groups.
\<close>

record rmatch =
  m_pre :: string
  m_text :: string
  m_post :: string
  m_last :: "char option"
  m_groups :: "nat \<rightharpoonup> string"

definition match_at :: "flags \<Rightarrow> regex \<Rightarrow> char option \<Rightarrow> string \<Rightarrow> rmatch option" where
  "match_at f r p s =
     (case ms f r (p, s, Map.empty) of
        [] \<Rightarrow> None
      | st # _ \<Rightarrow>
          (case st of (p', s', g) \<Rightarrow>
             Some \<lparr>m_pre = [], m_text = take (length s - length s') s, m_post = s',
                   m_last = p', m_groups = g\<rparr>))"

text \<open>\<open>re.match(r, s)\<close>: a match at the start of the text only.\<close>

definition re_match :: "flags \<Rightarrow> regex \<Rightarrow> string \<Rightarrow> rmatch option" where
  "re_match f r s = match_at f r None s"

text \<open>
  \<open>re.search\<close>: the leftmost position with a match, read on from a position whose
  previous character is \<open>p\<close>.
\<close>

fun search_from :: "flags \<Rightarrow> regex \<Rightarrow> char option \<Rightarrow> string \<Rightarrow> rmatch option" where
  "search_from f r p [] = match_at f r p []"
| "search_from f r p (c # cs) =
     (case match_at f r p (c # cs) of
        Some m \<Rightarrow> Some m
      | None \<Rightarrow> map_option (\<lambda>m. m\<lparr>m_pre := c # m_pre m\<rparr>) (search_from f r (Some c) cs))"

definition re_search :: "flags \<Rightarrow> regex \<Rightarrow> string \<Rightarrow> rmatch option" where
  "re_search f r s = search_from f r None s"

text \<open>\<open>m.groupdict()\<close> read at one name, given the pattern's table of group names.\<close>

definition group_named :: "(string \<times> nat) list \<Rightarrow> rmatch \<Rightarrow> string \<Rightarrow> string option" where
  "group_named names m n = (case map_of names n of None \<Rightarrow> None | Some i \<Rightarrow> m_groups m i)"

subsection \<open>Floating-point numbers\<close>

text \<open>
  A Python \<open>float\<close> is an IEEE 754 double: \<open>Fin neg m e\<close> is the number \<open>m * 2 ^ e\<close> with
  its sign (\<open>m\<close> is not negative), \<open>Inf neg\<close> an infinity and \<open>NaN\<close> not a number. Every
  operation rounds the exact result to the nearest double, ties to even.
\<close>

datatype pyfloat = Fin bool int int | Inf bool | NaN

text \<open>
  One way of writing each finite number: zero is \<open>0 * 2 ^ 0\<close>, and every other number has
  an odd \<open>m\<close>.
\<close>

function normal :: "bool \<Rightarrow> int \<Rightarrow> int \<Rightarrow> pyfloat" where
  "normal neg m e =
     (if m = 0 then Fin neg 0 0
      else if even m then normal neg (m div 2) (e + 1)
      else Fin neg m e)"
  by pat_completeness auto
termination
  by (relation "measure (\<lambda>(neg, m, e). nat \<bar>m\<bar>)") auto

declare normal.simps [simp del]

text \<open>The number of binary digits of a positive integer.\<close>

function bitlen :: "int \<Rightarrow> nat" where
  "bitlen n = (if n \<le> 0 then 0 else Suc (bitlen (n div 2)))"
  by pat_completeness auto
termination
  by (relation "measure nat") auto

declare bitlen.simps [simp del]

text \<open>The integer part of the binary logarithm of \<open>n / d\<close>, for positive \<open>n\<close> and \<open>d\<close>.\<close>

definition floor_log2 :: "int \<Rightarrow> int \<Rightarrow> int" where
  "floor_log2 n d =
     (let a = int (bitlen n) - int (bitlen d)
      in if d * 2 ^ nat a \<le> n * 2 ^ nat (- a) then a else a - 1)"

text \<open>
  The double nearest to \<open>n / d\<close>: 53 significant bits, or fewer below \<open>2 ^ - 1022\<close>, where
  the spacing stays \<open>2 ^ - 1074\<close>; a result of \<open>2 ^ 1024\<close> or more is an infinity.
\<close>

definition round_ratio :: "bool \<Rightarrow> int \<Rightarrow> int \<Rightarrow> pyfloat" where
  "round_ratio neg n d =
     (if n = 0 then Fin neg 0 0
      else
        let e = max (floor_log2 n d - 52) (- 1074);
            num = n * 2 ^ nat (- e);
            den = d * 2 ^ nat e;
            q = num div den;
            r = num mod den;
            m = (if den < 2 * r \<or> (2 * r = den \<and> odd q) then q + 1 else q)
        in if 0 \<le> e \<and> 2 ^ 1024 \<le> m * 2 ^ nat e then Inf neg else normal neg m e)"

text \<open>\<open>float(n)\<close> for an integer: too large an integer raises.\<close>

definition float_of_int :: "int \<Rightarrow> error + pyfloat" where
  "float_of_int n =
     (case round_ratio (n < 0) \<bar>n\<bar> 1 of
        Fin neg m e \<Rightarrow> Inr (Fin neg m e)
      | x \<Rightarrow> Inl (OverflowError ''int too large to convert to float''))"

text \<open>The product of two doubles.\<close>

fun float_mul :: "pyfloat \<Rightarrow> pyfloat \<Rightarrow> pyfloat" where
  "float_mul (Fin s1 m1 e1) (Fin s2 m2 e2) =
     round_ratio (s1 \<noteq> s2) (m1 * m2 * 2 ^ nat (e1 + e2)) (2 ^ nat (- (e1 + e2)))"
| "float_mul (Fin s1 m1 e1) (Inf s2) = (if m1 = 0 then NaN else Inf (s1 \<noteq> s2))"
| "float_mul (Inf s1) (Fin s2 m2 e2) = (if m2 = 0 then NaN else Inf (s1 \<noteq> s2))"
| "float_mul (Inf s1) (Inf s2) = Inf (s1 \<noteq> s2)"
| "float_mul NaN y = NaN"
| "float_mul x NaN = NaN"

text \<open>\<open>a / b\<close> on integers, \<open>b\<close> positive: the double nearest to the quotient.\<close>

definition int_truediv :: "int \<Rightarrow> int \<Rightarrow> error + pyfloat" where
  "int_truediv a b =
     (case round_ratio (a < 0) \<bar>a\<bar> b of
        Fin neg m e \<Rightarrow> Inr (Fin neg m e)
      | x \<Rightarrow> Inl (OverflowError ''integer division result too large for a float''))"

text \<open>\<open>int(x)\<close> for a float: towards zero.\<close>

fun int_of_float :: "pyfloat \<Rightarrow> error + int" where
  "int_of_float (Fin neg m e) =
     (let a = (if 0 \<le> e then m * 2 ^ nat e else m div 2 ^ nat (- e))
      in Inr (if neg then - a else a))"
| "int_of_float (Inf neg) = Inl (OverflowError ''cannot convert float infinity to integer'')"
| "int_of_float NaN = Inl (ValueError ''cannot convert float NaN to integer'')"

definition float_zero :: pyfloat where
  "float_zero = Fin False 0 0"

text \<open>
  \<open>float(s)\<close> on text. Surrounding whitespace is dropped. An underscore must stand between
  two digits and counts for nothing. What is left is an optional sign and then \<open>inf\<close>,
  \<open>infinity\<close> or \<open>nan\<close> in any case, or a decimal number: digits with at most one dot and
  at least one digit, and an optional exponent (\<open>e\<close> or \<open>E\<close>, an optional sign, digits).
  The result is the double nearest to the number written.
\<close>

fun underscores_ok :: "char \<Rightarrow> string \<Rightarrow> bool" where
  "underscores_ok prev [] = (prev \<noteq> CHR ''_'')"
| "underscores_ok prev (c # cs) =
     ((if c = CHR ''_'' then is_digit prev
       else if prev = CHR ''_'' then is_digit c else True)
      \<and> underscores_ok c cs)"

definition lower :: "char \<Rightarrow> char" where
  "lower c = (if CHR ''A'' \<le> c \<and> c \<le> CHR ''Z'' then swapcase c else c)"

definition float_of_str :: "string \<Rightarrow> error + pyfloat" where
  "float_of_str s =
     (let t = numeric_strip s;
          neg = startswith t ''-'';
          body = filter (\<lambda>c. c \<noteq> CHR ''_'')
                   (if startswith t ''-'' \<or> startswith t ''+'' then tl t else t);
          ip = takeWhile is_digit body;
          r1 = dropWhile is_digit body;
          fp = (if startswith r1 ''.'' then takeWhile is_digit (tl r1) else []);
          r2 = (if startswith r1 ''.'' then dropWhile is_digit (tl r1) else r1);
          has_exp = (startswith r2 ''e'' \<or> startswith r2 ''E'');
          r3 = (if has_exp then tl r2 else r2);
          ds = (if startswith r3 ''-'' \<or> startswith r3 ''+'' then tl r3 else r3);
          ex = (if has_exp then (if startswith r3 ''-'' then - digits_val ds else digits_val ds)
                else 0) - int (length fp);
          n = digits_val (ip @ fp)
      in if \<not> underscores_ok CHR 0x00 t then Inl (ValueError s)
         else if map lower body = ''inf'' \<or> map lower body = ''infinity'' then Inr (Inf neg)
         else if map lower body = ''nan'' then Inr NaN
         else if ip @ fp \<noteq> [] \<and> (if has_exp then ds \<noteq> [] \<and> list_all is_digit ds else r2 = [])
         then Inr (if 0 \<le> ex then round_ratio neg (n * 10 ^ nat ex) 1
                   else round_ratio neg n (10 ^ nat (- ex)))
         else Inl (ValueError s))"

subsection \<open>datetime.timedelta\<close>

text \<open>
  A \<open>timedelta\<close> holds days, seconds below 86400 and microseconds; more than 999999999
  days raise. Only the keywords the driver passes are modelled, with arguments that are
  not negative.
\<close>

record timedelta_rec =
  td_days :: int
  td_seconds :: int
  td_microseconds :: int

definition timedelta :: "int \<Rightarrow> int \<Rightarrow> int \<Rightarrow> error + timedelta_rec" where
  "timedelta days hours seconds =
     (let s = hours * 3600 + seconds;
          d = days + s div 86400
      in if 999999999 < \<bar>d\<bar> then Inl (OverflowError ''days; must have magnitude <= 999999999'')
         else Inr \<lparr>td_days = d, td_seconds = s mod 86400, td_microseconds = 0\<rparr>)"

definition total_seconds :: "timedelta_rec \<Rightarrow> error + pyfloat" where
  "total_seconds td =
     int_truediv ((td_days td * 86400 + td_seconds td) * 10 ^ 6 + td_microseconds td) (10 ^ 6)"

subsection \<open>The command executor\<close>

text \<open>
  \<open>run_commands\<close> of the device node is outside the driver. It takes a batch of commands
  and an encoding, and answers with one response per command or raises; it may change the
  device, whose state is \<open>'s\<close>.
\<close>

type_synonym 's device = "string list \<Rightarrow> encoding \<Rightarrow> 's \<Rightarrow> (error + response list) \<times> 's"

definition ebind :: "error + 'a \<Rightarrow> ('a \<Rightarrow> error + 'b) \<Rightarrow> error + 'b" where
  "ebind x f = (case x of Inl e \<Rightarrow> Inl e | Inr a \<Rightarrow> f a)"

text \<open>\<open>result[i]['output']\<close>\<close>

definition output_at :: "response list \<Rightarrow> nat \<Rightarrow> error + output" where
  "output_at result i =
     (if i < length result
      then (case result ! i of None \<Rightarrow> Inl (KeyError ''output'') | Some out \<Rightarrow> Inr out)
      else Inl (IndexError ''list index out of range''))"

text \<open>\<open>d[k]\<close>\<close>

definition item :: "(string, 'a) dict \<Rightarrow> string \<Rightarrow> error + 'a" where
  "item d k = (case map_of d k of None \<Rightarrow> Inl (KeyError k) | Some v \<Rightarrow> Inr v)"

text \<open>\<open>d.get(k, default)\<close>\<close>

definition get_default :: "('k, 'a) dict \<Rightarrow> 'k \<Rightarrow> 'a \<Rightarrow> 'a" where
  "get_default d k dflt = (case map_of d k of None \<Rightarrow> dflt | Some v \<Rightarrow> v)"

text \<open>\<open>int(v)\<close> on a value of the structured output.\<close>

fun py_int :: "val \<Rightarrow> error + int" where
  "py_int (VInt n) = Inr n"
| "py_int (VStr s) = int_of_str s"

text \<open>\<open>xs[i]\<close> and \<open>xs[-1]\<close> on a list.\<close>

definition nth_item :: "'a list \<Rightarrow> nat \<Rightarrow> error + 'a" where
  "nth_item xs i =
     (if i < length xs then Inr (xs ! i) else Inl (IndexError ''list index out of range''))"

definition last_item :: "'a list \<Rightarrow> error + 'a" where
  "last_item xs =
     (case rev xs of [] \<Rightarrow> Inl (IndexError ''list index out of range'') | x # _ \<Rightarrow> Inr x)"

text \<open>
  Reading an output in the shape the code expects. A string method called on structured
  data, or a key looked up in text, raises.
\<close>

fun as_text :: "output \<Rightarrow> error + string" where
  "as_text (Text t) = Inr t"
| "as_text out = Inl (AttributeError ''object has no such string method'')"

text \<open>
  \<open>out[k]\<close> for the name \<open>k\<close> of a field: a dictionary that holds interfaces has no such
  key, text and lists are not indexed by names.
\<close>

fun as_fields :: "output \<Rightarrow> error + (string, val) dict" where
  "as_fields (Fields d) = Inr d"
| "as_fields (Interfaces ifs) = Inr []"
| "as_fields out = Inl (TypeError ''indices must be integers'')"

text \<open>
  \<open>for row in out\<close>, each \<open>row\<close> then read by the name of a column. Empty text and an
  empty dictionary have nothing to go through; otherwise the first element is a character
  or a key, which is not indexed by names.
\<close>

fun as_table :: "output \<Rightarrow> error + (string, string) dict list" where
  "as_table (Table rows) = Inr rows"
| "as_table (Text t) =
     (if t = [] then Inr [] else Inl (TypeError ''string indices must be integers''))"
| "as_table (Fields d) =
     (if d = [] then Inr [] else Inl (TypeError ''string indices must be integers''))"
| "as_table (Interfaces ifs) = Inl (TypeError ''string indices must be integers'')"

text \<open>\<open>out['interfaces']\<close>\<close>

fun as_interfaces :: "output \<Rightarrow> error + (string, (string, val) dict) dict" where
  "as_interfaces (Interfaces ifs) = Inr ifs"
| "as_interfaces (Fields d) = Inl (KeyError ''interfaces'')"
| "as_interfaces out = Inl (TypeError ''indices must be integers'')"

text \<open>\<open>re.split(pattern, out)\<close>: the pattern functions take text only.\<close>

fun as_pattern_text :: "output \<Rightarrow> error + string" where
  "as_pattern_text (Text t) = Inr t"
| "as_pattern_text out = Inl (TypeError ''expected string or bytes-like object'')"

text \<open>A string method called on a value of the structured output.\<close>

fun val_str :: "val \<Rightarrow> error + string" where
  "val_str (VStr t) = Inr t"
| "val_str (VInt n) = Inl (AttributeError ''int object has no such attribute'')"

text \<open>\<open>re.match(pattern, v)\<close> on a value of the structured output.\<close>

fun val_pattern_arg :: "val \<Rightarrow> error + string" where
  "val_pattern_arg (VStr t) = Inr t"
| "val_pattern_arg (VInt n) = Inl (TypeError ''expected string or bytes-like object'')"

text \<open>\<open>int(g)\<close> on a group of a match: \<open>None\<close> is no number.\<close>

fun int_of_group :: "string option \<Rightarrow> error + int" where
  "int_of_group None = Inl (TypeError ''int() argument must be a string or a number'')"
| "int_of_group (Some t) = int_of_str t"

text \<open>\<open>py23_compat.text_type(g)\<close> on a group of a match.\<close>

fun text_type_group :: "string option \<Rightarrow> string" where
  "text_type_group None = ''None''"
| "text_type_group (Some t) = t"

text \<open>\<open>str(e)\<close> for an exception: its message.\<close>

fun exception_text :: "error \<Rightarrow> string" where
  "exception_text (NameError m) = m"
| "exception_text (TypeError m) = m"
| "exception_text (KeyError m) = [CHR 0x27] @ m @ [CHR 0x27]"
| "exception_text (ValueError m) = m"
| "exception_text (AttributeError m) = m"
| "exception_text (IndexError m) = m"
| "exception_text (OverflowError m) = m"
| "exception_text (CommandError m) = m"
| "exception_text (ConnectionError m) = m"
| "exception_text (CommandErrorException d) = []"

fun is_CommandError :: "error \<Rightarrow> bool" where
  "is_CommandError (CommandError m) = True"
| "is_CommandError e = False"

subsection \<open>get\_facts (lines 119 to 145)\<close>

text \<open>
  \<open>_RE_UPTIME\<close>, compiled with VERBOSE, so the blanks of the pattern stand for nothing:
  \<^verbatim>\<open>^((?P<day>\d+)\s+days?,\s+)?(?P<hour>\d+):(?P<minute>\d+):(?P<second>\d+)\<close>
\<close>

definition RE_UPTIME :: regex where
  "RE_UPTIME =
     cat [Bol,
          Opt (Grp 1 (cat [Grp 2 (Plus (One Digit)), Plus (One Space), lit ''day'',
                           Opt (One (Ch CHR ''s'')), One (Ch CHR '',''), Plus (One Space)])),
          Grp 3 (Plus (One Digit)), One (Ch CHR '':''),
          Grp 4 (Plus (One Digit)), One (Ch CHR '':''),
          Grp 5 (Plus (One Digit))]"

definition RE_UPTIME_names :: "(string \<times> nat) list" where
  "RE_UPTIME_names = [(''day'', 2), (''hour'', 3), (''minute'', 4), (''second'', 5)]"

record facts =
  hostname :: string
  fqdn :: string
  vendor :: string
  model :: val
  serial_number :: val
  os_version :: val
  uptime :: int
  interface_list :: "string list"

text \<open>
  Lines 130 to 134: the uptime text of \<open>show version\<close> as a float of seconds. The
  \<open>timedelta\<close> is built from the groups \<open>day\<close>, \<open>hour\<close> and \<open>second\<close>.
\<close>

definition get_facts_uptime :: "val \<Rightarrow> error + pyfloat" where
  "get_facts_uptime v =
     ebind (val_pattern_arg v) (\<lambda>text.
       case re_match no_flags RE_UPTIME text of
         None \<Rightarrow> Inl (AttributeError ''NoneType object has no attribute groupdict'')
       | Some u_match \<Rightarrow>
           ebind (case group_named RE_UPTIME_names u_match ''day'' of
                    None \<Rightarrow> Inr 0
                  | Some d \<Rightarrow> int_of_str d) (\<lambda>day.
           ebind (int_of_group (group_named RE_UPTIME_names u_match ''hour'')) (\<lambda>hour.
           ebind (int_of_group (group_named RE_UPTIME_names u_match ''second'')) (\<lambda>second.
           ebind (timedelta day hour second) total_seconds))))"

text \<open>
  \<open>string_parsers.sorted_nicely\<close> belongs to the napalm\_base library and is a parameter
  here.
\<close>

definition get_facts ::
  "(string list \<Rightarrow> string list) \<Rightarrow> 's device \<Rightarrow> 's \<Rightarrow> (error + facts) \<times> 's" where
  "get_facts sorted_nicely dev s =
     (case dev [''show version'', ''show hostname'', ''show interfaces status''] JsonEnc s of
        (r, s') \<Rightarrow>
          (ebind r (\<lambda>result.
           ebind (output_at result 0) (\<lambda>version.
           ebind (output_at result 1) (\<lambda>h0.
           ebind (as_text h0) (\<lambda>t0.
           ebind (nth_item (splitlines t0) 0) (\<lambda>l0.
           ebind (last_item (split l0 '' '')) (\<lambda>hostname'.
           ebind (output_at result 1) (\<lambda>h1.
           ebind (as_text h1) (\<lambda>t1.
           ebind (nth_item (splitlines t1) 1) (\<lambda>l1.
           ebind (last_item (split l1 '' '')) (\<lambda>fqdn'.
           ebind (output_at result 2) (\<lambda>o2.
           ebind (as_interfaces o2) (\<lambda>ifs.
           ebind (as_fields version) (\<lambda>vd.
           ebind (item vd ''uptime'') (\<lambda>up.
           ebind (get_facts_uptime up) (\<lambda>uptime'.
           ebind (item vd ''device'') (\<lambda>model'.
           ebind (item vd ''serialNumber'') (\<lambda>serial'.
           ebind (item vd ''softwareImageVersion'') (\<lambda>os'.
           ebind (int_of_float uptime') (\<lambda>seconds.
             Inr \<lparr>hostname = hostname', fqdn = fqdn', vendor = ''Metamako'',
                  model = model', serial_number = serial', os_version = os',
                  uptime = seconds,
                  interface_list = sorted_nicely (map fst ifs)\<rparr>))))))))))))))))))),
           s'))"

subsection \<open>get\_config (lines 534 to 556)\<close>

record config =
  startup :: string
  running :: string
  candidate :: string

text \<open>
  Line 549 builds an \<open>Exception\<close> and drops it: there is no \<open>raise\<close>, so the next
  statement runs for every selector. \<open>py23_compat.text_type\<close> on an output of the device
  is a parameter.
\<close>

definition get_config ::
  "(output \<Rightarrow> string) \<Rightarrow> 's device \<Rightarrow> string \<Rightarrow> 's \<Rightarrow> (error + config) \<times> 's" where
  "get_config text_type dev retrieve s =
     (let get_startup = (retrieve = ''all'' \<or> retrieve = ''startup'');
          get_running = (retrieve = ''all'' \<or> retrieve = ''running'');
          commands = [if get_startup then ''show startup-config'' else ''#'',
                      if get_running then ''show running-config'' else ''#'']
      in case dev commands TextEnc s of
           (r, s') \<Rightarrow>
             (ebind r (\<lambda>out.
              ebind (if get_startup then map_sum id text_type (output_at out 0) else Inr [])
                (\<lambda>startup'.
              ebind (if get_running then map_sum id text_type (output_at out 1) else Inr [])
                (\<lambda>running'.
                Inr \<lparr>startup = startup', running = running', candidate = []\<rparr>))),
              s'))"

subsection \<open>cli (lines 338 to 362)\<close>

text \<open>
  The argument of \<open>cli\<close>: a list of commands, or something that is no list.
\<close>

datatype commands_arg = CmdList "string list" | CmdStr string | CmdNone

text \<open>
  The two \<open>except\<close> clauses of the loop, entered with the exception \<open>e\<close> of the
  \<open>try\<close> body. The first clause evaluates \<open>pyeapi.eapilib.CommandError\<close> before it
  compares, and each handler evaluates \<open>CommandErrorException\<close> to raise it.
\<close>

definition cli_handler ::
  "string \<Rightarrow> (string, output option) dict \<Rightarrow> error \<Rightarrow> error" where
  "cli_handler command cli_output e =
     (if \<not> name_bound ''pyeapi'' then NameError ''pyeapi''
      else if is_CommandError e then
        (if name_bound ''CommandErrorException''
         then CommandErrorException
                (AList.update command
                   (Some (Text (''Invalid command: '' @ [CHR 0x22] @ command @ [CHR 0x22])))
                   cli_output)
         else NameError ''CommandErrorException'')
      else
        (if name_bound ''CommandErrorException''
         then CommandErrorException
                (AList.update command
                   (Some (Text (''Unable to execute command '' @ [CHR 0x22] @ command
                                @ [CHR 0x22] @ '': '' @ exception_text e)))
                   cli_output)
         else NameError ''CommandErrorException''))"

fun cli_loop ::
  "'s device \<Rightarrow> string list \<Rightarrow> (string, output option) dict \<Rightarrow> 's
     \<Rightarrow> (error + (string, output option) dict) \<times> 's" where
  "cli_loop dev [] cli_output s = (Inr cli_output, s)"
| "cli_loop dev (command # rest) cli_output s =
     (case dev [command] TextEnc s of
        (r, s') \<Rightarrow>
          (case ebind r (\<lambda>result. nth_item result 0) of
             Inl e \<Rightarrow> (Inl (cli_handler command cli_output e), s')
           | Inr response \<Rightarrow>
               cli_loop dev rest (AList.update command response cli_output) s'))"

definition cli ::
  "'s device \<Rightarrow> commands_arg \<Rightarrow> 's \<Rightarrow> (error + (string, output option) dict) \<times> 's" where
  "cli dev commands s =
     (case commands of
        CmdList cs \<Rightarrow> cli_loop dev cs [] s
      | CmdStr c \<Rightarrow> (Inl (TypeError ''Please enter a valid list of commands!''), s)
      | CmdNone \<Rightarrow> (Inl (TypeError ''Please enter a valid list of commands!''), s))"

subsection \<open>get\_interfaces (lines 147 to 197)\<close>

text \<open>
  The values of \<open>factormap\<close> are two floats and three integers. The float written
  \<open>1e-6\<close> is the double nearest to one millionth, and \<open>1e-3\<close> likewise.
\<close>

datatype pynum = PInt int | PFloat pyfloat

definition factormap :: "(string, pynum) dict" where
  "factormap =
     [([], PFloat (round_ratio False 1 (10 ^ 6))),
      (''k'', PFloat (round_ratio False 1 (10 ^ 3))),
      (''M'', PInt 1),
      (''G'', PInt 1000),
      (''T'', PInt 1000000)]"

text \<open>The pattern of \<open>_parse_mm_speed\<close>: \<^verbatim>\<open>^(?P<speed>\d+)(?P<unit>\D)?$\<close>\<close>

definition RE_SPEED :: regex where
  "RE_SPEED = cat [Bol, Grp 1 (Plus (One Digit)), Opt (Grp 2 (NotOne Digit)), Eol]"

definition RE_SPEED_names :: "(string \<times> nat) list" where
  "RE_SPEED_names = [(''speed'', 1), (''unit'', 2)]"

text \<open>\<open>m.groupdict(default)\<close> read at one name.\<close>

definition group_default :: "(string \<times> nat) list \<Rightarrow> rmatch \<Rightarrow> string \<Rightarrow> string \<Rightarrow> string" where
  "group_default names m dflt n = (case group_named names m n of None \<Rightarrow> dflt | Some t \<Rightarrow> t)"

text \<open>\<open>int(n * factor)\<close>: an integer product is exact, a float product is rounded.\<close>

fun scaled :: "int \<Rightarrow> pynum \<Rightarrow> error + int" where
  "scaled n (PInt k) = Inr (n * k)"
| "scaled n (PFloat x) = ebind (float_of_int n) (\<lambda>y. int_of_float (float_mul y x))"

definition parse_mm_speed :: "string \<Rightarrow> error + int" where
  "parse_mm_speed speed =
     (case re_match no_flags RE_SPEED speed of
        None \<Rightarrow> Inr 0
      | Some m \<Rightarrow>
          ebind (int_of_str (group_default RE_SPEED_names m [] ''speed'')) (\<lambda>n.
          ebind (item factormap (group_default RE_SPEED_names m [] ''unit'')) (\<lambda>factor.
            scaled n factor)))"

record interface_row =
  is_up :: bool
  is_enabled :: bool
  description :: string
  last_flapped :: pyfloat
  speed :: int
  mac_address :: string

text \<open>Line 171: the dictionary from port to description.\<close>

fun descriptions_of ::
  "(string, string) dict list \<Rightarrow> (string, string) dict \<Rightarrow> error + (string, string) dict" where
  "descriptions_of [] acc = Inr acc"
| "descriptions_of (d # ds) acc =
     ebind (item d ''Port'') (\<lambda>port.
     ebind (item d ''Description'') (\<lambda>descr.
       descriptions_of ds (AList.update port descr acc)))"

text \<open>Lines 176 to 195: the body of the loop, for one interface.\<close>

definition interface_entry ::
  "(string, string) dict \<Rightarrow> string \<Rightarrow> (string, val) dict \<Rightarrow> error + interface_row" where
  "interface_entry descriptions interface values =
     ebind (item values ''rx'') (\<lambda>rx.
     ebind (val_str rx) (\<lambda>rx_text.
     ebind (item values ''speed'') (\<lambda>sp.
     ebind (val_pattern_arg sp) (\<lambda>speed_text.
     ebind (parse_mm_speed speed_text) (\<lambda>mbits.
       Inr \<lparr>is_up = startswith rx_text ''up'',
            is_enabled =
              (if startswith rx_text ''up'' then True
               else if contains rx_text ''shutdown'' then False else True),
            description = get_default descriptions interface [],
            last_flapped = float_zero,
            speed = mbits,
            mac_address = []\<rparr>)))))"

fun interfaces_loop ::
  "(string, string) dict \<Rightarrow> (string, (string, val) dict) dict
     \<Rightarrow> (string, interface_row) dict \<Rightarrow> error + (string, interface_row) dict" where
  "interfaces_loop descriptions [] interfaces = Inr interfaces"
| "interfaces_loop descriptions ((interface, values) # rest) interfaces =
     ebind (interface_entry descriptions interface values) (\<lambda>row.
       interfaces_loop descriptions rest (AList.update interface row interfaces))"

definition get_interfaces ::
  "'s device \<Rightarrow> 's \<Rightarrow> (error + (string, interface_row) dict) \<times> 's" where
  "get_interfaces dev s =
     (case dev [''show interfaces status'', ''show interfaces description''] JsonEnc s of
        (r, s') \<Rightarrow>
          (ebind r (\<lambda>out.
           ebind (output_at out 1) (\<lambda>o1.
           ebind (as_table o1) (\<lambda>rows.
           ebind (descriptions_of rows []) (\<lambda>descriptions.
           ebind (output_at out 0) (\<lambda>o0.
           ebind (as_interfaces o0) (\<lambda>ifs.
             interfaces_loop descriptions ifs [])))))),
           s'))"

subsection \<open>get\_lldp\_neighbors (lines 199 to 219)\<close>

record lldp_neighbor =
  neighbor_hostname :: string
  neighbor_port :: string

fun lldp_loop ::
  "(string, string) dict list \<Rightarrow> (string, lldp_neighbor list) dict
     \<Rightarrow> error + (string, lldp_neighbor list) dict" where
  "lldp_loop [] lldp = Inr lldp"
| "lldp_loop (n # rest) lldp =
     ebind (item n ''Neighbor_Device'') (\<lambda>device.
       if device = [] then lldp_loop rest lldp
       else
         ebind (item n ''Neighbor_Port'') (\<lambda>nport.
           if nport = [] then lldp_loop rest lldp
           else
             ebind (item n ''Port'') (\<lambda>port.
               lldp_loop rest
                 (AList.update port
                    (get_default lldp port []
                       @ [\<lparr>neighbor_hostname = device, neighbor_port = nport\<rparr>])
                    lldp))))"

definition get_lldp_neighbors ::
  "'s device \<Rightarrow> 's \<Rightarrow> (error + (string, lldp_neighbor list) dict) \<times> 's" where
  "get_lldp_neighbors dev s =
     (case dev [''show lldp neighbor''] JsonEnc s of
        (r, s') \<Rightarrow>
          (ebind r (\<lambda>res.
           ebind (output_at res 0) (\<lambda>out.
           ebind (as_table out) (\<lambda>rows.
             lldp_loop rows []))),
           s'))"

subsection \<open>get\_interfaces\_counters (lines 221 to 242)\<close>

record counters =
  tx_errors :: int
  rx_errors :: int
  tx_discards :: int
  rx_discards :: int
  tx_octets :: int
  rx_octets :: int
  tx_unicast_packets :: int
  rx_unicast_packets :: int
  tx_multicast_packets :: int
  rx_multicast_packets :: int
  tx_broadcast_packets :: int
  rx_broadcast_packets :: int

text \<open>
  Lines 228 to 241, for one interface: \<open>errs\<close> is \<open>errorsdict.get(interface, {})\<close> and
  \<open>cnt\<close> the interface's counters.
\<close>

definition counters_entry :: "(string, val) dict \<Rightarrow> (string, val) dict \<Rightarrow> error + counters" where
  "counters_entry errs cnt =
     ebind (py_int (get_default errs ''tx'' (VInt (- 1)))) (\<lambda>txe.
     ebind (py_int (get_default errs ''tx'' (VInt (- 1)))) (\<lambda>rxe.
     ebind (py_int (get_default cnt ''txoctets'' (VInt (- 1)))) (\<lambda>txo.
     ebind (py_int (get_default cnt ''rxoctets'' (VInt (- 1)))) (\<lambda>rxo.
     ebind (py_int (get_default cnt ''txucastpkts'' (VInt (- 1)))) (\<lambda>txu.
     ebind (py_int (get_default cnt ''rxucastpkts'' (VInt (- 1)))) (\<lambda>rxu.
     ebind (py_int (get_default cnt ''txmcastpkts'' (VInt (- 1)))) (\<lambda>txm.
     ebind (py_int (get_default cnt ''rxmcastpkts'' (VInt (- 1)))) (\<lambda>rxm.
     ebind (py_int (get_default cnt ''txbcastpkts'' (VInt (- 1)))) (\<lambda>txb.
     ebind (py_int (get_default cnt ''rxbcastpkts'' (VInt (- 1)))) (\<lambda>rxb.
       Inr \<lparr>tx_errors = txe, rx_errors = rxe, tx_discards = - 1, rx_discards = - 1,
            tx_octets = txo, rx_octets = rxo,
            tx_unicast_packets = txu, rx_unicast_packets = rxu,
            tx_multicast_packets = txm, rx_multicast_packets = rxm,
            tx_broadcast_packets = txb, rx_broadcast_packets = rxb\<rparr>))))))))))"

fun counters_loop ::
  "(string, (string, val) dict) dict \<Rightarrow> (string, (string, val) dict) dict
     \<Rightarrow> (string, counters) dict \<Rightarrow> error + (string, counters) dict" where
  "counters_loop errorsdict [] interface_counters = Inr interface_counters"
| "counters_loop errorsdict ((interface, cnt) # rest) interface_counters =
     ebind (counters_entry (get_default errorsdict interface []) cnt) (\<lambda>c.
       counters_loop errorsdict rest (AList.update interface c interface_counters))"

definition get_interfaces_counters ::
  "'s device \<Rightarrow> 's \<Rightarrow> (error + (string, counters) dict) \<times> 's" where
  "get_interfaces_counters dev s =
     (case dev [''show interfaces counters'', ''show interfaces counters errors''] JsonEnc s of
        (r, s') \<Rightarrow>
          (ebind r (\<lambda>out.
           ebind (output_at out 1) (\<lambda>o1.
           ebind (as_interfaces o1) (\<lambda>errorsdict.
           ebind (output_at out 0) (\<lambda>o0.
           ebind (as_interfaces o0) (\<lambda>ifs.
             counters_loop errorsdict ifs []))))),
           s'))"

subsection \<open>get\_arp\_table (lines 364 to 392)\<close>

text \<open>
  \<open>_RE_ARP\<close>, compiled with VERBOSE and IGNORECASE:
  \<^verbatim>\<open>^(?P<address>\d{1,3}\.\d{1,3}\.\d{1,3}\.\d{1,3})\s+\S+\s+\<close>
  \<^verbatim>\<open>(?P<hwAddress>([0-9A-F]{2}[:-]){5}([0-9A-F]{2}))\s+\S+\s+(?P<interface>\S+)$\<close>
\<close>

definition hex_digit :: "citem list" where
  "hex_digit = [Range CHR ''0'' CHR ''9'', Range CHR ''A'' CHR ''F'']"

definition RE_ARP :: regex where
  "RE_ARP =
     cat [Bol,
          Grp 1 (cat [Rep 1 3 (One Digit), One (Ch CHR ''.''),
                      Rep 1 3 (One Digit), One (Ch CHR ''.''),
                      Rep 1 3 (One Digit), One (Ch CHR ''.''),
                      Rep 1 3 (One Digit)]),
          Plus (One Space), Plus (NotOne Space), Plus (One Space),
          Grp 2 (cat [Rep 5 5 (Grp 3 (cat [Rep 2 2 (Set hex_digit),
                                           Set [Ch CHR '':'', Ch CHR ''-'']])),
                      Grp 4 (Rep 2 2 (Set hex_digit))]),
          Plus (One Space), Plus (NotOne Space), Plus (One Space),
          Grp 5 (Plus (NotOne Space)),
          Eol]"

definition RE_ARP_names :: "(string \<times> nat) list" where
  "RE_ARP_names = [(''address'', 1), (''hwAddress'', 2), (''interface'', 5)]"

definition RE_ARP_flags :: flags where
  "RE_ARP_flags = \<lparr>ignorecase = True, multiline = False\<rparr>"

record arp_entry =
  arp_interface :: string
  arp_mac :: string
  arp_ip :: string
  arp_age :: pyfloat

text \<open>
  Lines 376 to 390, for one line of the output. \<open>napalm_base.helpers.mac\<close> and
  \<open>napalm_base.helpers.ip\<close> belong to the napalm\_base library and are parameters; a line
  that does not match adds nothing.
\<close>

definition arp_line ::
  "(string option \<Rightarrow> error + string) \<Rightarrow> (string \<Rightarrow> error + string) \<Rightarrow> string
     \<Rightarrow> error + arp_entry list" where
  "arp_line helpers_mac helpers_ip line =
     (case re_match RE_ARP_flags RE_ARP line of
        None \<Rightarrow> Inr []
      | Some neighbor \<Rightarrow>
          (let interface = text_type_group (group_named RE_ARP_names neighbor ''interface'');
               mac_raw = group_named RE_ARP_names neighbor ''hwAddress'';
               ip = text_type_group (group_named RE_ARP_names neighbor ''address'')
           in ebind (helpers_mac mac_raw) (\<lambda>mac.
              ebind (helpers_ip ip) (\<lambda>ip'.
                Inr [\<lparr>arp_interface = interface, arp_mac = mac, arp_ip = ip',
                      arp_age = float_zero\<rparr>]))))"

fun arp_loop ::
  "(string option \<Rightarrow> error + string) \<Rightarrow> (string \<Rightarrow> error + string) \<Rightarrow> string list
     \<Rightarrow> arp_entry list \<Rightarrow> error + arp_entry list" where
  "arp_loop helpers_mac helpers_ip [] arp_table = Inr arp_table"
| "arp_loop helpers_mac helpers_ip (line # rest) arp_table =
     ebind (arp_line helpers_mac helpers_ip line) (\<lambda>entries.
       arp_loop helpers_mac helpers_ip rest (arp_table @ entries))"

text \<open>
  The \<open>except\<close> clause of line 372, entered with the exception \<open>e\<close> of the \<open>try\<close> body:
  it evaluates \<open>pyeapi.eapilib.CommandError\<close> before it compares.
\<close>

definition arp_handler :: "error \<Rightarrow> error + arp_entry list" where
  "arp_handler e =
     (if \<not> name_bound ''pyeapi'' then Inl (NameError ''pyeapi'')
      else if is_CommandError e then Inr []
      else Inl e)"

definition get_arp_table ::
  "(string option \<Rightarrow> error + string) \<Rightarrow> (string \<Rightarrow> error + string) \<Rightarrow> 's device \<Rightarrow> 's
     \<Rightarrow> (error + arp_entry list) \<times> 's" where
  "get_arp_table helpers_mac helpers_ip dev s =
     (case dev [''show arp''] JsonEnc s of
        (r, s') \<Rightarrow>
          (case ebind r (\<lambda>res. output_at res 0) of
             Inl e \<Rightarrow> arp_handler e
           | Inr out \<Rightarrow>
               ebind (as_text out) (\<lambda>text.
                 arp_loop helpers_mac helpers_ip (split text [CHR 0x0A]) []),
           s'))"

subsection \<open>get\_ntp\_stats (lines 401 to 445)\<close>

text \<open>
  \<open>REGEX\<close>, used with IGNORECASE:
  \<^verbatim>\<open>^\s?(\+|\*|x|-)?([a-zA-Z0-9\.+-:]+)\s+([a-zA-Z0-9\.]+)\s+([0-9]{1,2})\<close>
  \<^verbatim>\<open>\s+(-|u)\s+([0-9h-]+)\s+([0-9]+)\s+([0-9]+)\s+([0-9\.]+)\s+([0-9\.-]+)\<close>
  \<^verbatim>\<open>\s+([0-9\.]+)\s?$\<close>
  In the second group \<open>+-:\<close> is the range from \<open>+\<close> to \<open>:\<close>.
\<close>

definition alnum_dot :: "citem list" where
  "alnum_dot =
     [Range CHR ''a'' CHR ''z'', Range CHR ''A'' CHR ''Z'', Range CHR ''0'' CHR ''9'',
      Ch CHR ''.'']"

definition digits_dot :: "citem list" where
  "digits_dot = [Range CHR ''0'' CHR ''9'', Ch CHR ''.'']"

definition REGEX :: regex where
  "REGEX =
     cat [Bol, Opt (One Space),
          Opt (Grp 1 (Alt (One (Ch CHR ''+''))
                     (Alt (One (Ch CHR ''*''))
                     (Alt (One (Ch CHR ''x'')) (One (Ch CHR ''-'')))))),
          Grp 2 (Plus (Set (alnum_dot @ [Range CHR ''+'' CHR '':'']))),
          Plus (One Space), Grp 3 (Plus (Set alnum_dot)),
          Plus (One Space), Grp 4 (Rep 1 2 (Set [Range CHR ''0'' CHR ''9''])),
          Plus (One Space), Grp 5 (Alt (One (Ch CHR ''-'')) (One (Ch CHR ''u''))),
          Plus (One Space),
          Grp 6 (Plus (Set [Range CHR ''0'' CHR ''9'', Ch CHR ''h'', Ch CHR ''-''])),
          Plus (One Space), Grp 7 (Plus (Set [Range CHR ''0'' CHR ''9''])),
          Plus (One Space), Grp 8 (Plus (Set [Range CHR ''0'' CHR ''9''])),
          Plus (One Space), Grp 9 (Plus (Set digits_dot)),
          Plus (One Space), Grp 10 (Plus (Set (digits_dot @ [Ch CHR ''-'']))),
          Plus (One Space), Grp 11 (Plus (Set digits_dot)),
          Opt (One Space), Eol]"

definition REGEX_flags :: flags where
  "REGEX_flags = \<lparr>ignorecase = True, multiline = False\<rparr>"

record ntp_stat =
  remote :: string
  synchronized :: bool
  referenceid :: string
  stratum :: int
  ntp_type :: string
  ntp_when :: string
  hostpoll :: int
  reachability :: int
  delay :: pyfloat
  offset :: pyfloat
  jitter :: pyfloat

text \<open>\<open>float(g)\<close> on a group of a match.\<close>

fun float_of_group :: "string option \<Rightarrow> error + pyfloat" where
  "float_of_group None = Inl (TypeError ''float() argument must be a string or a number'')"
| "float_of_group (Some t) = float_of_str t"

text \<open>
  Lines 429 to 441: the dictionary built inside the \<open>try\<close>, from the groups of a match;
  \<open>line_groups[i]\<close> is group \<open>i + 1\<close>.
\<close>

definition ntp_entry :: "rmatch \<Rightarrow> error + ntp_stat" where
  "ntp_entry line_search =
     (let line_groups = (\<lambda>i. m_groups line_search (Suc i))
      in ebind (int_of_group (line_groups 3)) (\<lambda>stratum'.
         ebind (int_of_group (line_groups 6)) (\<lambda>hostpoll'.
         ebind (int_of_group (line_groups 7)) (\<lambda>reachability'.
         ebind (float_of_group (line_groups 8)) (\<lambda>delay'.
         ebind (float_of_group (line_groups 9)) (\<lambda>offset'.
         ebind (float_of_group (line_groups 10)) (\<lambda>jitter'.
           Inr \<lparr>remote = text_type_group (line_groups 1),
                synchronized = (line_groups 0 = Some ''*''),
                referenceid = text_type_group (line_groups 2),
                stratum = stratum',
                ntp_type = text_type_group (line_groups 4),
                ntp_when = text_type_group (line_groups 5),
                hostpoll = hostpoll',
                reachability = reachability',
                delay = delay', offset = offset', jitter = jitter'\<rparr>)))))))"

text \<open>
  Lines 423 to 443: the loop. A line without a match is passed over, and so is a line
  whose dictionary raises.
\<close>

fun ntp_loop :: "string list \<Rightarrow> ntp_stat list \<Rightarrow> ntp_stat list" where
  "ntp_loop [] ntp_stats = ntp_stats"
| "ntp_loop (ntp_assoc # rest) ntp_stats =
     (case re_search REGEX_flags REGEX ntp_assoc of
        None \<Rightarrow> ntp_loop rest ntp_stats
      | Some line_search \<Rightarrow>
          (case ntp_entry line_search of
             Inl e \<Rightarrow> ntp_loop rest ntp_stats
           | Inr stat \<Rightarrow> ntp_loop rest (ntp_stats @ [stat])))"

definition get_ntp_stats :: "'s device \<Rightarrow> 's \<Rightarrow> (error + ntp_stat list) \<times> 's" where
  "get_ntp_stats dev s =
     (case dev [''show ntp associations''] TextEnc s of
        (r, s') \<Rightarrow>
          (ebind r (\<lambda>res.
           ebind (nth_item res 0) (\<lambda>response.
           ebind (as_text (case response of
                             None \<Rightarrow> Text [CHR 0x0A, CHR 0x0A]
                           | Some out \<Rightarrow> out)) (\<lambda>ntp_assoc.
             Inr (ntp_loop (drop 2 (splitlines ntp_assoc)) [])))),
           s'))"

subsection \<open>get\_lldp\_neighbors\_detail (lines 289 to 336)\<close>

text \<open>
  All the matches of a pattern in a text, from left to right and without overlap, and
  the text after the last one; \<open>m_pre\<close> of each match is the text between it and the
  match before. The patterns used here match no empty text; a search that stops making
  progress ends the list.
\<close>

function find_all ::
  "flags \<Rightarrow> regex \<Rightarrow> char option \<Rightarrow> string \<Rightarrow> rmatch list \<times> string" where
  "find_all f r p s =
     (case search_from f r p s of
        None \<Rightarrow> ([], s)
      | Some m \<Rightarrow>
          if length (m_post m) < length s
          then (case find_all f r (m_last m) (m_post m) of (found, rest) \<Rightarrow> (m # found, rest))
          else ([m], m_post m))"
  by pat_completeness auto
termination
  by (relation "measure (\<lambda>(f, r, p, s). length s)") auto

declare find_all.simps [simp del]

text \<open>
  \<open>re.split(r, s)\<close> for a pattern with \<open>n\<close> groups: the pieces between the matches, each
  match's groups after the piece before it. A group that took no part is \<open>None\<close>.
\<close>

definition re_split :: "flags \<Rightarrow> regex \<Rightarrow> nat \<Rightarrow> string \<Rightarrow> string option list" where
  "re_split f r n s =
     (case find_all f r None s of
        (found, rest) \<Rightarrow>
          concat (map (\<lambda>m. Some (m_pre m) # map (m_groups m) [1..<Suc n]) found)
            @ [Some rest])"

text \<open>\<open>re.sub(r, '', s)\<close>: the text without the matches.\<close>

definition re_sub_empty :: "flags \<Rightarrow> regex \<Rightarrow> string \<Rightarrow> string" where
  "re_sub_empty f r s =
     (case find_all f r None s of (found, rest) \<Rightarrow> concat (map m_pre found) @ rest)"

text \<open>The header of an interface, with MULTILINE: \<^verbatim>\<open>^\*\s(\S+)$\<close>\<close>

definition RE_HEADER :: regex where
  "RE_HEADER = cat [Bol, One (Ch CHR ''*''), One Space, Grp 1 (Plus (NotOne Space)), Eol]"

definition RE_HEADER_flags :: flags where
  "RE_HEADER_flags = \<lparr>ignorecase = False, multiline = True\<rparr>"

text \<open>A remark in parentheses: \<^verbatim>\<open>\s*\([^\)]*\)\s*\<close>\<close>

definition RE_PAREN :: regex where
  "RE_PAREN =
     cat [Star (One Space), One (Ch CHR ''(''), Star (NotSet [Ch CHR '')'']),
          One (Ch CHR '')''), Star (One Space)]"

text \<open>\<open>zip(*(iter(xs),) * 2)\<close>: the elements two by two.\<close>

fun pairs :: "'a list \<Rightarrow> ('a \<times> 'a) list" where
  "pairs (a # b # rest) = (a, b) # pairs rest"
| "pairs rest = []"

record lldp_detail =
  parent_interface :: "string option"
  remote_port :: string
  remote_port_description :: string
  remote_chassis_id :: string
  remote_system_name :: string
  remote_system_description :: string
  remote_system_capab :: string
  remote_system_enabled_capab :: string

text \<open>Lines 307 to 309: the \<open>key: value\<close> lines of one neighbor.\<close>

fun info_lines :: "string list \<Rightarrow> (string, string) dict \<Rightarrow> error + (string, string) dict" where
  "info_lines [] info_dict = Inr info_dict"
| "info_lines (info_line # rest) info_dict =
     (case split1 info_line CHR '':'' of
        [key, value] \<Rightarrow> info_lines rest (AList.update (strip key) (strip value) info_dict)
      | _ \<Rightarrow> Inl (ValueError ''not enough values to unpack''))"

text \<open>
  Lines 313 to 316. The \<open>try\<close> body starts by evaluating the name \<open>ast\<close>; the bare
  \<open>except\<close> turns every exception, that of an unbound name too, into the empty
  dictionary. \<open>ast.literal_eval\<close> belongs to the standard library and is a parameter.
\<close>

definition system_capabilities ::
  "(string \<Rightarrow> error + (string, string) dict) \<Rightarrow> (string, string) dict
     \<Rightarrow> (string, string) dict" where
  "system_capabilities literal_eval info_dict =
     (if name_bound ''ast''
      then (case literal_eval (get_default info_dict ''system capability'' ''{}'') of
              Inl e \<Rightarrow> []
            | Inr d \<Rightarrow> d)
      else [])"

text \<open>Lines 305 to 334: the record of one neighbor.\<close>

definition neighbor_detail ::
  "(string \<Rightarrow> error + (string, string) dict) \<Rightarrow> string option \<Rightarrow> string \<Rightarrow> error + lldp_detail" where
  "neighbor_detail literal_eval interface neighbor_str =
     ebind (info_lines (splitlines (strip neighbor_str)) []) (\<lambda>info_dict.
       let capabilities = system_capabilities literal_eval info_dict;
           system_capab = replace (get_default capabilities ''capabilities'' []) CHR '','' '', '';
           enabled_capab = replace (get_default capabilities ''enabled'' []) CHR '','' '', ''
       in Inr \<lparr>parent_interface = interface,
               remote_port =
                 re_sub_empty no_flags RE_PAREN (get_default info_dict ''port id'' []),
               remote_port_description = get_default info_dict ''port description'' [],
               remote_chassis_id =
                 re_sub_empty no_flags RE_PAREN (get_default info_dict ''chassis id'' []),
               remote_system_name = get_default info_dict ''system name'' [],
               remote_system_description = get_default info_dict ''system description'' [],
               remote_system_capab = system_capab,
               remote_system_enabled_capab = enabled_capab\<rparr>)"

fun neighbors_loop ::
  "(string \<Rightarrow> error + (string, string) dict) \<Rightarrow> string option \<Rightarrow> string list
     \<Rightarrow> lldp_detail list \<Rightarrow> error + lldp_detail list" where
  "neighbors_loop literal_eval interface [] acc = Inr acc"
| "neighbors_loop literal_eval interface (neighbor_str # rest) acc =
     ebind (neighbor_detail literal_eval interface neighbor_str) (\<lambda>tlv_dict.
       neighbors_loop literal_eval interface rest (acc @ [tlv_dict]))"

fun detail_loop ::
  "(string \<Rightarrow> error + (string, string) dict) \<Rightarrow> (string option \<times> string option) list
     \<Rightarrow> (string option, lldp_detail list) dict
     \<Rightarrow> error + (string option, lldp_detail list) dict" where
  "detail_loop literal_eval [] lldp_neighbors_out = Inr lldp_neighbors_out"
| "detail_loop literal_eval ((interface, interface_str) # rest) lldp_neighbors_out =
     (case interface_str of
        None \<Rightarrow> Inl (AttributeError ''NoneType object has no attribute strip'')
      | Some text \<Rightarrow>
          ebind (neighbors_loop literal_eval interface
                   (split (strip text) [CHR 0x0A, CHR 0x0A]) []) (\<lambda>tlvs.
            detail_loop literal_eval rest
              (AList.update interface tlvs lldp_neighbors_out)))"

definition get_lldp_neighbors_detail ::
  "(string \<Rightarrow> error + (string, string) dict) \<Rightarrow> 's device \<Rightarrow> string \<Rightarrow> 's
     \<Rightarrow> (error + (string option, lldp_detail list) dict) \<times> 's" where
  "get_lldp_neighbors_detail literal_eval dev interface s =
     (case dev [''show lldp neighbor '' @ interface @ '' verbose''] JsonEnc s of
        (r, s') \<Rightarrow>
          (ebind r (\<lambda>res.
           ebind (output_at res 0) (\<lambda>out.
           ebind (as_pattern_text out) (\<lambda>neighbors_str.
             detail_loop literal_eval
               (pairs (drop 1 (re_split RE_HEADER_flags RE_HEADER 1 neighbors_str)))
               []))),
           s'))"

subsection \<open>Devices for the examples\<close>

text \<open>
  A device that answers one batch of commands, in one encoding, with fixed responses and
  rejects every other batch. Its state counts the batches it was sent.
\<close>

definition scripted :: "string list \<Rightarrow> encoding \<Rightarrow> response list \<Rightarrow> nat device" where
  "scripted expected enc rs commands e n =
     (if commands = expected \<and> e = enc then Inr rs else Inl (CommandError ''Invalid input''),
      Suc n)"

definition facts_device :: "string \<Rightarrow> nat device" where
  "facts_device up =
     scripted [''show version'', ''show hostname'', ''show interfaces status''] JsonEnc
       [Some (Fields [(''uptime'', VStr up), (''device'', VStr ''MetaConnect 48''),
                      (''serialNumber'', VStr ''C48-A6-21836-1''),
                      (''softwareImageVersion'', VStr ''0.13.4'')]),
        Some (Text (''Hostname: sw1'' @ [CHR 0x0A] @ ''FQDN: sw1.lab'')),
        Some (Interfaces [(''et1'', [])])]"

definition counters_device :: "nat device" where
  "counters_device =
     scripted [''show interfaces counters'', ''show interfaces counters errors''] JsonEnc
       [Some (Interfaces [(''et1'', [(''txoctets'', VInt 5), (''rxoctets'', VStr ''7'')]),
                          (''et2'', [])]),
        Some (Interfaces [(''et1'', [(''tx'', VInt 3), (''rx'', VInt 9)])])]"

section \<open>Properties\<close>

subsection \<open>Helper facts\<close>

lemma ebind_Inr_iff: "ebind x f = Inr y \<longleftrightarrow> (\<exists>a. x = Inr a \<and> f a = Inr y)"
  by (cases x) (simp_all add: ebind_def)

text \<open>None of these names is bound by the module: no import statement binds them.\<close>

lemma name_unbound [simp]:
  "\<not> name_bound ''pyeapi''" "\<not> name_bound ''CommandErrorException''" "\<not> name_bound ''ast''"
  by (simp_all add: name_bound_def module_globals_def)

subsection \<open>get\_facts\<close>

text \<open>
  C1. The uptime text \<open>2 days, 03:04:05\<close> is claimed to give
  \<open>2 * 86400 + 3 * 3600 + 4 * 60 + 5\<close> seconds and \<open>03:04:05\<close> to give
  \<open>3 * 3600 + 4 * 60 + 5\<close>. The code matches the minute group and then builds the
  \<open>timedelta\<close> from days, hours and seconds only (line 133), so the four minutes are
  lost: \<open>get_facts\<close> reports \<open>2 * 86400 + 3 * 3600 + 5\<close> and \<open>3 * 3600 + 5\<close>.
\<close>

theorem get_facts_uptime_leaves_minutes_out:
  "map_sum id uptime (fst (get_facts sorted_nicely (facts_device ''2 days, 03:04:05'') 0))
     = Inr (2 * 86400 + 3 * 3600 + 5)
   \<and> map_sum id uptime (fst (get_facts sorted_nicely (facts_device ''03:04:05'') 0))
     = Inr (3 * 3600 + 5)"
  by code_simp

subsection \<open>get\_config\<close>

text \<open>
  C2. \<open>get_config\<close> with a selector outside all, running and startup is claimed to raise
  a validation error. The code does not: line 549 builds the exception and never raises
  it. With the selector \<open>bogus\<close> the driver sends the two placeholder commands and, when
  the device answers them, returns three empty sections.
\<close>

theorem get_config_bogus_returns_empty_sections:
  assumes "dev [''#'', ''#''] TextEnc s = (Inr out, s')"
  shows "get_config text_type dev ''bogus'' s
           = (Inr \<lparr>startup = [], running = [], candidate = []\<rparr>, s')"
  using assms by (simp add: get_config_def ebind_def)

theorem get_config_bogus_returns_empty_sections_witness:
  "get_config (\<lambda>out. []) (\<lambda>commands enc s. (Inr [], s)) ''bogus'' (0::nat)
     = (Inr \<lparr>startup = [], running = [], candidate = []\<rparr>, 0)"
  using get_config_bogus_returns_empty_sections
          [of "\<lambda>commands enc s. (Inr [], s)" "0::nat" "[]" "0::nat" "\<lambda>out. []"]
  by simp


subsection \<open>cli\<close>

text \<open>
  C3. When the device rejects a command, \<open>cli\<close> is claimed to put an
  \<open>Invalid command\<close> message into the result map and to raise the aggregate
  command-error exception. The code cannot get that far: the \<open>except\<close> clause of
  line 350 names \<open>pyeapi.eapilib.CommandError\<close>, and the module never binds the name
  \<open>pyeapi\<close>, so whatever the \<open>try\<close> body raises for a command, the call ends with a
  \<open>NameError\<close>.
\<close>

theorem cli_failed_command_raises_NameError:
  assumes "dev [command] TextEnc s = (Inl e, s')"
  shows "cli dev (CmdList (command # rest)) s = (Inl (NameError ''pyeapi''), s')"
  using assms by (simp add: cli_def cli_handler_def ebind_def)

theorem cli_failed_command_raises_NameError_witness:
  "scripted [''show version''] TextEnc [] [''bad_cmd''] TextEnc 0
     = (Inl (CommandError ''Invalid input''), 1)
   \<and> cli (scripted [''show version''] TextEnc []) (CmdList [''bad_cmd'']) 0
     = (Inl (NameError ''pyeapi''), 1)"
proof -
  have h: "scripted [''show version''] TextEnc [] [''bad_cmd''] TextEnc 0
             = (Inl (CommandError ''Invalid input''), 1)"
    by (simp add: scripted_def)
  from cli_failed_command_raises_NameError
         [where dev = "scripted [''show version''] TextEnc []" and rest = "[]", OF h] h
  show ?thesis by simp
qed

text \<open>
  The first part of C3 holds: an argument that is no list is rejected and the device is
  left as it was, so no command was run.
\<close>

lemma cli_rejects_non_list:
  "cli dev (CmdStr c) s = (Inl (TypeError ''Please enter a valid list of commands!''), s)"
  "cli dev CmdNone s = (Inl (TypeError ''Please enter a valid list of commands!''), s)"
  by (simp_all add: cli_def)

subsection \<open>get\_arp\_table\<close>

text \<open>
  C6. When the device rejects \<open>show arp\<close>, \<open>get_arp_table\<close> is claimed to return the
  empty list. The \<open>except\<close> clause of line 372 names \<open>pyeapi.eapilib.CommandError\<close>
  and the module never binds \<open>pyeapi\<close>: the call ends with a \<open>NameError\<close> instead.
\<close>

theorem get_arp_table_rejected_raises_NameError:
  assumes "dev [''show arp''] JsonEnc s = (Inl e, s')"
  shows "get_arp_table helpers_mac helpers_ip dev s = (Inl (NameError ''pyeapi''), s')"
  using assms by (simp add: get_arp_table_def arp_handler_def ebind_def)

theorem get_arp_table_rejected_raises_NameError_witness:
  "scripted [] JsonEnc [] [''show arp''] JsonEnc 0 = (Inl (CommandError ''Invalid input''), 1)
   \<and> get_arp_table (\<lambda>m. Inr []) (\<lambda>a. Inr a) (scripted [] JsonEnc []) 0
     = (Inl (NameError ''pyeapi''), 1)"
proof -
  have h: "scripted [] JsonEnc [] [''show arp''] JsonEnc 0
             = (Inl (CommandError ''Invalid input''), 1)"
    by (simp add: scripted_def)
  from get_arp_table_rejected_raises_NameError
         [where dev = "scripted [] JsonEnc []", OF h] h
  show ?thesis by simp
qed

text \<open>
  The rest of C6 holds on the code: the line of the claim gives one entry with age 0.0
  (shown with helpers that hand the address back), and a line without a match adds
  nothing.
\<close>

lemma arp_line_example:
  "arp_line (\<lambda>m. Inr (case m of None \<Rightarrow> [] | Some a \<Rightarrow> a)) Inr ''10.0.0.1  ether  AA:BB:CC:DD:EE:FF  C  eth3''
     = Inr [\<lparr>arp_interface = ''eth3'', arp_mac = ''AA:BB:CC:DD:EE:FF'', arp_ip = ''10.0.0.1'',
             arp_age = float_zero\<rparr>]"
  by code_simp

lemma arp_line_no_match:
  "re_match RE_ARP_flags RE_ARP line = None \<Longrightarrow> arp_line helpers_mac helpers_ip line = Inr []"
  by (simp add: arp_line_def)

subsection \<open>The speed parser of get\_interfaces\<close>


























subsection \<open>get\_interfaces\_counters\<close>

lemma counters_entry_fields:
  assumes "counters_entry errs cnt = Inr c"
  shows "py_int (get_default errs ''tx'' (VInt (- 1))) = Inr (tx_errors c)
         \<and> rx_errors c = tx_errors c \<and> tx_discards c = - 1 \<and> rx_discards c = - 1"
  using assms unfolding counters_entry_def ebind_Inr_iff by auto

lemma counters_loop_entries:
  assumes "counters_loop errorsdict ifs acc = Inr res" and "map_of res name = Some c"
  shows "map_of acc name = Some c
         \<or> (\<exists>cnt. (name, cnt) \<in> set ifs
               \<and> counters_entry (get_default errorsdict name []) cnt = Inr c)"
  using assms
proof (induction ifs arbitrary: acc)
  case Nil
  then show ?case by simp
next
  case (Cons p ifs)
  obtain i cnt where p: "p = (i, cnt)" by (cases p)
  from Cons.prems(1) p obtain c' where
    c': "counters_entry (get_default errorsdict i []) cnt = Inr c'" and
    rest: "counters_loop errorsdict ifs (AList.update i c' acc) = Inr res"
    by (auto simp: ebind_Inr_iff)
  from Cons.IH [OF rest Cons.prems(2)] show ?case
  proof
    assume "map_of (AList.update i c' acc) name = Some c"
    then show ?thesis using c' p by (auto simp: update_conv' split: if_splits)
  next
    assume "\<exists>cnt. (name, cnt) \<in> set ifs
               \<and> counters_entry (get_default errorsdict name []) cnt = Inr c"
    then show ?thesis by auto
  qed
qed

lemma counters_loop_keys:
  "counters_loop errorsdict ifs acc = Inr res \<Longrightarrow> fst ` set res = fst ` set acc \<union> fst ` set ifs"
proof (induction ifs arbitrary: acc)
  case Nil
  then show ?case by simp
next
  case (Cons p ifs)
  obtain i cnt where p: "p = (i, cnt)" by (cases p)
  from Cons.prems p obtain c' where
    rest: "counters_loop errorsdict ifs (AList.update i c' acc) = Inr res"
    by (auto simp: ebind_Inr_iff)
  from Cons.IH [OF rest] p show ?case
    by (simp add: dom_update)
qed

text \<open>A counter that is an integer, or absent, converts.\<close>

lemma py_int_get_default_returns:
  assumes "\<forall>v \<in> snd ` set d. \<exists>n. v = VInt n"
  shows "\<exists>n. py_int (get_default d k (VInt (- 1))) = Inr n"
proof (cases "map_of d k")
  case None
  then show ?thesis by (simp add: get_default_def)
next
  case (Some v)
  then have "v \<in> snd ` set d" by (force dest: map_of_SomeD)
  with assms obtain n where "v = VInt n" by blast
  with Some show ?thesis by (simp add: get_default_def)
qed

lemma counters_entry_returns:
  assumes errs: "\<forall>v \<in> snd ` set errs. \<exists>n. v = VInt n"
    and cnt: "\<forall>v \<in> snd ` set cnt. \<exists>n. v = VInt n"
  shows "\<exists>c. counters_entry errs cnt = Inr c"
proof -
  note e = py_int_get_default_returns [OF errs]
  note c = py_int_get_default_returns [OF cnt]
  from e [of "''tx''"] c [of "''txoctets''"] c [of "''rxoctets''"]
    c [of "''txucastpkts''"] c [of "''rxucastpkts''"] c [of "''txmcastpkts''"]
    c [of "''rxmcastpkts''"] c [of "''txbcastpkts''"] c [of "''rxbcastpkts''"]
  show ?thesis
    unfolding counters_entry_def by (auto simp: ebind_def)
qed

lemma counters_loop_returns:
  assumes "\<forall>errs \<in> snd ` set errorsdict. \<forall>v \<in> snd ` set errs. \<exists>n. v = VInt n"
    and "\<forall>cnt \<in> snd ` set ifs. \<forall>v \<in> snd ` set cnt. \<exists>n. v = VInt n"
  shows "\<exists>res. counters_loop errorsdict ifs acc = Inr res"
  using assms(2)
proof (induction ifs arbitrary: acc)
  case Nil
  then show ?case by simp
next
  case (Cons p ifs)
  obtain i cnt where p: "p = (i, cnt)" by (cases p)
  have "\<forall>v \<in> snd ` set (get_default errorsdict i []). \<exists>n. v = VInt n"
  proof (cases "map_of errorsdict i")
    case None
    then show ?thesis by (simp add: get_default_def)
  next
    case (Some errs)
    then have "errs \<in> snd ` set errorsdict" by (force dest: map_of_SomeD)
    with assms(1) have "\<forall>v \<in> snd ` set errs. \<exists>n. v = VInt n" by blast
    with Some show ?thesis by (simp add: get_default_def)
  qed
  moreover from Cons.prems p have "\<forall>v \<in> snd ` set cnt. \<exists>n. v = VInt n" by simp
  ultimately obtain c where "counters_entry (get_default errorsdict i []) cnt = Inr c"
    using counters_entry_returns by blast
  moreover from Cons.prems have
    "\<exists>res. counters_loop errorsdict ifs (AList.update i c acc) = Inr res"
    by (intro Cons.IH) simp
  ultimately show ?case using p by (simp add: ebind_def)
qed

text \<open>
  The call returns when the device answers with the two dictionaries of interfaces and
  every counter in them is an integer.
\<close>

lemma get_interfaces_counters_returns:
  assumes "dev [''show interfaces counters'', ''show interfaces counters errors''] JsonEnc s
             = (Inr [Some (Interfaces ifs), Some (Interfaces errorsdict)], s')"
    and "\<forall>errs \<in> snd ` set errorsdict. \<forall>v \<in> snd ` set errs. \<exists>n. v = VInt n"
    and "\<forall>cnt \<in> snd ` set ifs. \<forall>v \<in> snd ` set cnt. \<exists>n. v = VInt n"
  shows "\<exists>interface_counters. get_interfaces_counters dev s = (Inr interface_counters, s')"
  using assms(1) counters_loop_returns [OF assms(2,3), of "[]"]
  by (auto simp: get_interfaces_counters_def ebind_def output_at_def)

text \<open>
  C5. In every result of \<open>get_interfaces_counters\<close> the interfaces are exactly those of
  the counters payload; for each of them \<open>rx_errors\<close> equals \<open>tx_errors\<close>, and both are
  read from the \<open>tx\<close> field of the interface's entry in the errors payload; an
  interface of the counters payload without an entry in the errors payload is in the
  result with -1 for both (as is one whose entry has no \<open>tx\<close>); \<open>tx_discards\<close> and
  \<open>rx_discards\<close> are -1.
\<close>

theorem get_interfaces_counters_errors_from_tx:
  assumes "get_interfaces_counters dev s = (Inr interface_counters, s')"
    and "dev [''show interfaces counters'', ''show interfaces counters errors''] JsonEnc s
           = (Inr out, s')"
    and "output_at out 0 = Inr (Interfaces ifs)"
    and "output_at out 1 = Inr (Interfaces errorsdict)"
  shows "fst ` set interface_counters = fst ` set ifs
         \<and> (\<forall>interface c. map_of interface_counters interface = Some c \<longrightarrow>
               rx_errors c = tx_errors c
               \<and> (case map_of errorsdict interface of
                     None \<Rightarrow> tx_errors c = - 1 \<and> rx_errors c = - 1
                   | Some errs \<Rightarrow>
                       (case map_of errs ''tx'' of
                          None \<Rightarrow> tx_errors c = - 1
                        | Some v \<Rightarrow> py_int v = Inr (tx_errors c)))
               \<and> tx_discards c = - 1 \<and> rx_discards c = - 1)
         \<and> (\<forall>interface. interface \<in> fst ` set ifs \<and> map_of errorsdict interface = None \<longrightarrow>
               (\<exists>c. map_of interface_counters interface = Some c
                  \<and> tx_errors c = - 1 \<and> rx_errors c = - 1))"
proof -
  from assms have loop: "counters_loop errorsdict ifs [] = Inr interface_counters"
    by (auto simp: get_interfaces_counters_def ebind_Inr_iff)
  have keys: "fst ` set interface_counters = fst ` set ifs"
    using counters_loop_keys [OF loop] by simp
  have entries: "rx_errors c = tx_errors c
               \<and> (case map_of errorsdict interface of
                     None \<Rightarrow> tx_errors c = - 1 \<and> rx_errors c = - 1
                   | Some errs \<Rightarrow>
                       (case map_of errs ''tx'' of
                          None \<Rightarrow> tx_errors c = - 1
                        | Some v \<Rightarrow> py_int v = Inr (tx_errors c)))
               \<and> tx_discards c = - 1 \<and> rx_discards c = - 1"
    if "map_of interface_counters interface = Some c" for interface c
  proof -
    from counters_loop_entries [OF loop that] obtain cnt where
      "counters_entry (get_default errorsdict interface []) cnt = Inr c"
      by auto
    from counters_entry_fields [OF this] show ?thesis
      by (auto simp: get_default_def split: option.splits)
  qed
  have missing: "\<exists>c. map_of interface_counters interface = Some c
                  \<and> tx_errors c = - 1 \<and> rx_errors c = - 1"
    if "interface \<in> fst ` set ifs" "map_of errorsdict interface = None" for interface
  proof -
    from that(1) keys have "map_of interface_counters interface \<noteq> None"
      by (simp add: map_of_eq_None_iff)
    then obtain c where c: "map_of interface_counters interface = Some c" by blast
    from entries [OF c] that(2) c show ?thesis by simp
  qed
  from keys entries missing show ?thesis by blast
qed

theorem get_interfaces_counters_errors_from_tx_witness:
  "get_interfaces_counters counters_device 0
     = (Inr [(''et1'', \<lparr>tx_errors = 3, rx_errors = 3, tx_discards = - 1, rx_discards = - 1,
                         tx_octets = 5, rx_octets = 7,
                         tx_unicast_packets = - 1, rx_unicast_packets = - 1,
                         tx_multicast_packets = - 1, rx_multicast_packets = - 1,
                         tx_broadcast_packets = - 1, rx_broadcast_packets = - 1\<rparr>),
             (''et2'', \<lparr>tx_errors = - 1, rx_errors = - 1, tx_discards = - 1, rx_discards = - 1,
                         tx_octets = - 1, rx_octets = - 1,
                         tx_unicast_packets = - 1, rx_unicast_packets = - 1,
                         tx_multicast_packets = - 1, rx_multicast_packets = - 1,
                         tx_broadcast_packets = - 1, rx_broadcast_packets = - 1\<rparr>)], 1)
   \<and> counters_device [''show interfaces counters'', ''show interfaces counters errors'']
         JsonEnc 0
     = (Inr [Some (Interfaces [(''et1'', [(''txoctets'', VInt 5), (''rxoctets'', VStr ''7'')]),
                               (''et2'', [])]),
             Some (Interfaces [(''et1'', [(''tx'', VInt 3), (''rx'', VInt 9)])])], 1)
   \<and> fst ` set [(''et1'', \<lparr>tx_errors = 3, rx_errors = 3, tx_discards = - 1,
                             rx_discards = - 1, tx_octets = 5, rx_octets = 7,
                             tx_unicast_packets = - 1, rx_unicast_packets = - 1,
                             tx_multicast_packets = - 1, rx_multicast_packets = - 1,
                             tx_broadcast_packets = - 1, rx_broadcast_packets = - 1\<rparr>),
                  (''et2'', \<lparr>tx_errors = - 1, rx_errors = - 1, tx_discards = - 1,
                             rx_discards = - 1, tx_octets = - 1, rx_octets = - 1,
                             tx_unicast_packets = - 1, rx_unicast_packets = - 1,
                             tx_multicast_packets = - 1, rx_multicast_packets = - 1,
                             tx_broadcast_packets = - 1, rx_broadcast_packets = - 1\<rparr>)]
       = fst ` set [(''et1'', [(''txoctets'', VInt 5), (''rxoctets'', VStr ''7'')]),
                    (''et2'', [])]"
proof -
  let ?c1 = "\<lparr>tx_errors = 3, rx_errors = 3, tx_discards = - 1, rx_discards = - 1,
              tx_octets = 5, rx_octets = 7,
              tx_unicast_packets = - 1, rx_unicast_packets = - 1,
              tx_multicast_packets = - 1, rx_multicast_packets = - 1,
              tx_broadcast_packets = - 1, rx_broadcast_packets = - 1\<rparr>"
  let ?c2 = "\<lparr>tx_errors = - 1, rx_errors = - 1, tx_discards = - 1, rx_discards = - 1,
              tx_octets = - 1, rx_octets = - 1,
              tx_unicast_packets = - 1, rx_unicast_packets = - 1,
              tx_multicast_packets = - 1, rx_multicast_packets = - 1,
              tx_broadcast_packets = - 1, rx_broadcast_packets = - 1\<rparr>"
  let ?ifs = "[(''et1'', [(''txoctets'', VInt 5), (''rxoctets'', VStr ''7'')]), (''et2'', [])]"
  let ?errs = "[(''et1'', [(''tx'', VInt 3), (''rx'', VInt 9)])]"
  let ?out = "[Some (Interfaces ?ifs), Some (Interfaces ?errs)]"
  have h1: "get_interfaces_counters counters_device 0
              = (Inr [(''et1'', ?c1), (''et2'', ?c2)], 1)"
    by code_simp
  have h2: "counters_device [''show interfaces counters'', ''show interfaces counters errors'']
              JsonEnc 0 = (Inr ?out, 1)"
    by code_simp
  have h3: "output_at ?out 0 = Inr (Interfaces ?ifs)"
    by code_simp
  have h4: "output_at ?out 1 = Inr (Interfaces ?errs)"
    by code_simp
  from get_interfaces_counters_errors_from_tx [OF h1 h2 h3 h4]
  have "fst ` set [(''et1'', ?c1), (''et2'', ?c2)] = fst ` set ?ifs"
    by (rule conjunct1)
  with h1 h2 show ?thesis by (intro conjI)
qed

end
